theory Spec2Isabelle
  imports Main
begin

section \<open>Values of the host language\<close>

text \<open>
  A value produced by \<^verbatim>\<open>JSON.parse\<close> (the decoded claims, a userinfo attribute, a token
  payload attribute). A number is represented by the text that \<^verbatim>\<open>String(n)\<close> gives for it,
  which identifies a JSON number up to the sign of zero. The bindings of \<open>JObj\<close> are the own
  properties of the parsed object, one binding per key.
\<close>

datatype json =
    JNull
  | JBool bool
  | JNum string
  | JStr string
  | JArr "json list"
  | JObj "(string \<times> json) list"

text \<open>
  A property of a thrown object: a string, or some other value, of which only the text the
  template literal \<^verbatim>\<open>`${v}`\<close> gives is kept.
\<close>

datatype js_prop = Str string | NonStr string

text \<open>
  A thrown value. \<open>Primitive\<close> stands for every value \<open>v\<close> with
  \<^verbatim>\<open>typeof v !== 'object' || v === null\<close> (the tag tells two of them apart);
  \<open>ErrObject n m\<close> is an object, \<open>n\<close> and \<open>m\<close> its \<^verbatim>\<open>name\<close> and \<^verbatim>\<open>message\<close>
  properties, \<open>None\<close> when \<^verbatim>\<open>'name' in err\<close> (\<^verbatim>\<open>'message' in err\<close>) is false.
\<close>

datatype thrown =
    Primitive string
  | ErrObject "js_prop option" "js_prop option"

text \<open>\<^verbatim>\<open>new Error(msg)\<close> and the \<^verbatim>\<open>TypeError\<close> the runtime raises (with the message of V8).\<close>

definition Error :: "string \<Rightarrow> thrown" where
  "Error msg = ErrObject (Some (Str ''Error'')) (Some (Str msg))"

definition TypeError :: "string \<Rightarrow> thrown" where
  "TypeError msg = ErrObject (Some (Str ''TypeError'')) (Some (Str msg))"

section \<open>The catalog model\<close>

text \<open>
  \<^verbatim>\<open>Entity\<close> and \<^verbatim>\<open>DeferredEntity\<close> of the catalog model, with the fields this repository
  reads and writes. \<^verbatim>\<open>metadata.namespace\<close> is optional in the catalog model.
\<close>

record entity_profile =
  displayName :: string
  email :: string

record entity_spec =
  profile :: entity_profile
  memberOf :: "string list"

record entity_metadata =
  name :: string
  namespace :: "string option"
  annotations :: "(string \<times> string) list"

record entity =
  apiVersion :: string
  kind :: string
  metadata :: entity_metadata
  spec :: entity_spec

record deferred_entity =
  entity :: entity
  locationKey :: string

text \<open>
  The argument of \<^verbatim>\<open>applyMutation\<close>: \<^verbatim>\<open>{type: 'full', entities}\<close> or
  \<^verbatim>\<open>{type: 'delta', added, removed}\<close>.
\<close>

datatype mutation =
    Full "deferred_entity list"
  | Delta "deferred_entity list" "deferred_entity list"

text \<open>
  The catalog connection is an external object. Its \<^verbatim>\<open>applyMutation\<close> is given the calls made
  on it so far and the present one, and resolves (\<open>None\<close>) or rejects with a value.
\<close>

type_synonym connection = "mutation list \<Rightarrow> mutation \<Rightarrow> thrown option"

datatype log_level = Debug | Warn | Err

section \<open>DynamicUserEntityProvider\<close>

text \<open>
  The fields of the class, and the two effects it has on the outside: the calls of
  \<^verbatim>\<open>applyMutation\<close> in order (\<open>applied\<close>) and the lines given to the logger (\<open>logged\<close>).
  \<open>userCache\<close> is a \<^verbatim>\<open>Map\<close>: its bindings in insertion order.
\<close>

record provider =
  connection :: "connection option"
  userCache :: "(string \<times> deferred_entity) list"
  applied :: "mutation list"
  logged :: "(log_level \<times> string) list"

text \<open>\<^verbatim>\<open>Map.prototype.set\<close>: a present key keeps its place, a new key goes last.\<close>

fun map_set :: "('k \<times> 'v) list \<Rightarrow> 'k \<Rightarrow> 'v \<Rightarrow> ('k \<times> 'v) list" where
  "map_set [] k v = [(k, v)]"
| "map_set ((k', v') # kvs) k v =
     (if k' = k then (k, v) # kvs else (k', v') # map_set kvs k v)"

text \<open>\<^verbatim>\<open>Map.prototype.delete\<close>.\<close>

definition map_delete :: "('k \<times> 'v) list \<Rightarrow> 'k \<Rightarrow> ('k \<times> 'v) list" where
  "map_delete kvs k = filter (\<lambda>kv. fst kv \<noteq> k) kvs"

text \<open>\<^verbatim>\<open>Array.from(m.values())\<close>.\<close>

definition map_values :: "('k \<times> 'v) list \<Rightarrow> 'v list" where
  "map_values kvs = map snd kvs"

definition new_provider :: provider where
  "new_provider = \<lparr>connection = None, userCache = [], applied = [], logged = []\<rparr>"

definition getProviderName :: string where
  "getProviderName = ''dynamic-user-provider''"

definition connect :: "provider \<Rightarrow> connection \<Rightarrow> provider" where
  "connect p c =
     p\<lparr>connection := Some c,
       logged := logged p @ [(Debug, ''Dynamic User Entity Provider connected'')]\<rparr>"

text \<open>The template literal renders an absent namespace as \<^verbatim>\<open>undefined\<close>.\<close>

definition entityKey :: "entity \<Rightarrow> string" where
  "entityKey e =
     kind e @ '':'' @
     (case namespace (metadata e) of None \<Rightarrow> ''undefined'' | Some ns \<Rightarrow> ns) @
     ''/'' @ name (metadata e)"

definition deferred :: "entity \<Rightarrow> deferred_entity" where
  "deferred e = \<lparr>entity = e, locationKey = ''dynamic-user-provider:'' @ entityKey e\<rparr>"

text \<open>
  The result is the provider after the call and what the promise settles to:
  \<open>Inr ()\<close> when it resolves, \<open>Inl err\<close> when it rejects.
\<close>

definition addOrUpdateUser :: "provider \<Rightarrow> entity \<Rightarrow> provider \<times> (thrown + unit)" where
  "addOrUpdateUser p userEntity =
     (let key = entityKey userEntity;
          p1 = p\<lparr>userCache := map_set (userCache p) key (deferred userEntity)\<rparr>
      in case connection p1 of
           Some c \<Rightarrow>
             (let m = Full (map_values (userCache p1));
                  p2 = p1\<lparr>applied := applied p1 @ [m]\<rparr>
              in case c (applied p1) m of
                   None \<Rightarrow>
                     (p2\<lparr>logged := logged p2 @
                          [(Debug, ''Successfully added/updated user entity: '' @ key)]\<rparr>,
                      Inr ())
                 | Some err \<Rightarrow>
                     (p2\<lparr>logged := logged p2 @
                          [(Err, ''Failed to add/update user entity: '' @ key)]\<rparr>,
                      Inl err))
         | None \<Rightarrow>
             (p1\<lparr>logged := logged p1 @ [(Warn, ''No connection available to catalog'')]\<rparr>,
              Inr ()))"

definition removeUser :: "provider \<Rightarrow> string \<Rightarrow> provider \<times> (thrown + unit)" where
  "removeUser p key =
     (case (map_of (userCache p) key, connection p) of
        (Some d, Some c) \<Rightarrow>
          (let p1 = p\<lparr>userCache := map_delete (userCache p) key\<rparr>;
               m = Full (map_values (userCache p1))
           in (p1\<lparr>applied := applied p1 @ [m]\<rparr>,
               case c (applied p1) m of None \<Rightarrow> Inr () | Some err \<Rightarrow> Inl err))
      | _ \<Rightarrow> (p, Inr ()))"

definition getAllUsers :: "provider \<Rightarrow> deferred_entity list" where
  "getAllUsers p = map_values (userCache p)"

text \<open>
  A caller that awaits \<^verbatim>\<open>addOrUpdateUser\<close> for each entity of a list in turn, going on
  after a rejection.
\<close>

fun addOrUpdateUsers :: "provider \<Rightarrow> entity list \<Rightarrow> provider" where
  "addOrUpdateUsers p [] = p"
| "addOrUpdateUsers p (e # es) = addOrUpdateUsers (fst (addOrUpdateUser p e)) es"

text \<open>
  The invariant of the cache: one binding per key, and every binding is stored under the
  stable key of its entity.
\<close>

definition keyed :: "(string \<times> deferred_entity) list \<Rightarrow> bool" where
  "keyed c \<longleftrightarrow>
     distinct (map fst c) \<and> (\<forall>kv \<in> set c. fst kv = entityKey (entity (snd kv)))"

section \<open>Reading decoded values\<close>

text \<open>
  \<^verbatim>\<open>v.k\<close> on a value that is neither \<^verbatim>\<open>null\<close> nor \<^verbatim>\<open>undefined\<close>, for the property names
  this program reads (\<^verbatim>\<open>groups\<close>, \<^verbatim>\<open>resource_access\<close>, \<^verbatim>\<open>octo\<close>, \<^verbatim>\<open>roles\<close>): no prototype
  defines them, so only an object's own binding gives a value. \<open>None\<close> is \<^verbatim>\<open>undefined\<close>.
\<close>

fun get_prop :: "json \<Rightarrow> string \<Rightarrow> json option" where
  "get_prop (JObj ps) k = map_of ps k"
| "get_prop _ k = None"

text \<open>\<^verbatim>\<open>v?.k\<close> and \<^verbatim>\<open>v ?? d\<close>.\<close>

fun opt_chain :: "json option \<Rightarrow> string \<Rightarrow> json option" where
  "opt_chain None k = None"
| "opt_chain (Some JNull) k = None"
| "opt_chain (Some v) k = get_prop v k"

fun nullish :: "json option \<Rightarrow> json \<Rightarrow> json" where
  "nullish None d = d"
| "nullish (Some JNull) d = d"
| "nullish (Some v) d = v"

text \<open>\<^verbatim>\<open>!!v\<close>. A parsed number is falsy only when it is zero, whose text is \<^verbatim>\<open>0\<close>.\<close>

fun js_truthy :: "json \<Rightarrow> bool" where
  "js_truthy JNull = False"
| "js_truthy (JBool b) = b"
| "js_truthy (JNum n) = (n \<noteq> ''0'')"
| "js_truthy (JStr s) = (s \<noteq> [])"
| "js_truthy (JArr xs) = True"
| "js_truthy (JObj ps) = True"

text \<open>
  \<^verbatim>\<open>a === b\<close> for two values that come from two separately parsed documents: primitives
  are compared by value, and two objects or arrays are never the same object.
\<close>

fun js_strict_equal :: "json option \<Rightarrow> json option \<Rightarrow> bool" where
  "js_strict_equal None None = True"
| "js_strict_equal (Some JNull) (Some JNull) = True"
| "js_strict_equal (Some (JBool a)) (Some (JBool b)) = (a = b)"
| "js_strict_equal (Some (JNum a)) (Some (JNum b)) = (a = b)"
| "js_strict_equal (Some (JStr a)) (Some (JStr b)) = (a = b)"
| "js_strict_equal _ _ = False"

text \<open>\<^verbatim>\<open>xs.join(sep)\<close> on strings.\<close>

fun join :: "string \<Rightarrow> string list \<Rightarrow> string" where
  "join sep [] = []"
| "join sep [x] = x"
| "join sep (x # y # ys) = x @ sep @ join sep (y # ys)"

text \<open>
  The text a template literal gives for a parsed value: an array is its elements joined by
  commas, \<^verbatim>\<open>null\<close> elements left empty.
\<close>

fun js_to_string :: "json \<Rightarrow> string" where
  "js_to_string JNull = ''null''"
| "js_to_string (JBool b) = (if b then ''true'' else ''false'')"
| "js_to_string (JNum n) = n"
| "js_to_string (JStr s) = s"
| "js_to_string (JArr xs) =
     join '','' (map (\<lambda>x. if x = JNull then [] else js_to_string x) xs)"
| "js_to_string (JObj ps) = ''[object Object]''"

fun prop_text :: "js_prop \<Rightarrow> string" where
  "prop_text (Str s) = s"
| "prop_text (NonStr s) = s"

text \<open>\<^verbatim>\<open>s.split(c)\<close> for a separator of one character: never an empty array.\<close>

fun split_on :: "char \<Rightarrow> string \<Rightarrow> string list" where
  "split_on c [] = [[]]"
| "split_on c (x # xs) =
     (if x = c then [] # split_on c xs
      else (case split_on c xs of
              [] \<Rightarrow> [[x]]
            | seg # segs \<Rightarrow> (x # seg) # segs))"

text \<open>The decimal text of a number, as a template literal gives it.\<close>

definition digit_char :: "nat \<Rightarrow> char" where
  "digit_char d = char_of (48 + d)"

fun string_of_nat :: "nat \<Rightarrow> string" where
  "string_of_nat n =
     (if n < 10 then [digit_char n] else string_of_nat (n div 10) @ [digit_char (n mod 10)])"

declare string_of_nat.simps [simp del]

section \<open>The resolution context\<close>

record sign_in_result =
  token :: string

text \<open>
  The argument of \<^verbatim>\<open>signInWithCatalogUser\<close>: the query, \<^verbatim>\<open>{entityRef: ref}\<close> or
  \<^verbatim>\<open>{annotations: {...}}\<close>, and the \<^verbatim>\<open>dangerousEntityRefFallback\<close> option.
\<close>

datatype sign_in_query =
    ByEntityRef string
  | ByAnnotations "(string \<times> json) list"

record sign_in_call =
  query :: sign_in_query
  dangerousEntityRefFallback :: "json option"

text \<open>
  The catalog is external and changes between calls: \<open>ctx n call\<close> is what the call of
  \<^verbatim>\<open>signInWithCatalogUser\<close> that follows \<open>n\<close> earlier ones settles to.
\<close>

type_synonym resolver_context = "nat \<Rightarrow> sign_in_call \<Rightarrow> thrown + sign_in_result"

text \<open>What a resolver does to the outside, in order.\<close>

datatype event =
    Lookup sign_in_call
  | Sleep nat

section \<open>oidcLdapUuidMatchingAnnotation\<close>

definition LDAP_UUID_ANNOTATION :: string where
  "LDAP_UUID_ANNOTATION = ''backstage.io/ldap-uuid''"

record ldap_options =
  dangerouslyAllowSignInWithoutUserInCatalog :: "bool option"
  ldapUuidKey :: "string option"

text \<open>
  The part of \<^verbatim>\<open>info.result.fullProfile\<close> the resolver reads: \<open>userinfo k\<close> is
  \<^verbatim>\<open>userinfo[k]\<close>, and \<open>id_token\<close> is \<^verbatim>\<open>tokenset.id_token\<close>.
\<close>

record oidc_profile =
  userinfo :: "string \<Rightarrow> json option"
  id_token :: "string option"

definition uuid_missing_message :: string where
  "uuid_missing_message =
     ''The user profile from LDAP is missing the UUID, likely due to a misconfiguration in the provider. Please contact your system administrator for assistance.''"

definition id_token_missing_message :: string where
  "id_token_missing_message =
     ''The user ID token from LDAP is missing. Please contact your system administrator for assistance.''"

definition uuid_mismatch_message :: string where
  "uuid_mismatch_message =
     ''There was a problem verifying your identity with LDAP due to mismatching UUID. Please contact your system administrator for assistance.''"

text \<open>Line 138: \<^verbatim>\<open>options?.ldapUuidKey ?? 'ldap_uuid'\<close>.\<close>

definition uuidKeyOf :: "ldap_options option \<Rightarrow> string" where
  "uuidKeyOf options =
     (case options of
        None \<Rightarrow> ''ldap_uuid''
      | Some opts \<Rightarrow> (case ldapUuidKey opts of None \<Rightarrow> ''ldap_uuid'' | Some k \<Rightarrow> k))"

text \<open>
  \<open>decodeJwt\<close> is the function of that name of the \<^verbatim>\<open>jose\<close> library, a parameter here: it
  throws or returns the payload object, read by key. The result is the calls made on the
  context and what the resolver settles to.
\<close>

definition oidcLdapUuidMatchingAnnotation ::
  "(string \<Rightarrow> thrown + (string \<Rightarrow> json option)) \<Rightarrow> ldap_options option \<Rightarrow>
   oidc_profile \<Rightarrow> resolver_context \<Rightarrow> event list \<times> (thrown + sign_in_result)" where
  "oidcLdapUuidMatchingAnnotation decodeJwt options info ctx =
     (let uuidKey = uuidKeyOf options
      in case userinfo info uuidKey of
           None \<Rightarrow> ([], Inl (Error uuid_missing_message))
         | Some uuid \<Rightarrow>
             if \<not> js_truthy uuid then ([], Inl (Error uuid_missing_message))
             else
               (case id_token info of
                  None \<Rightarrow> ([], Inl (Error id_token_missing_message))
                | Some idToken \<Rightarrow>
                    if idToken = [] then ([], Inl (Error id_token_missing_message))
                    else
                      (case decodeJwt idToken of
                         Inl err \<Rightarrow> ([], Inl err)
                       | Inr payload \<Rightarrow>
                           (let uuidFromIdToken = payload uuidKey
                            in if \<not> js_strict_equal (Some uuid) uuidFromIdToken
                               then ([], Inl (Error uuid_mismatch_message))
                               else
                                 (let call =
                                        \<lparr>query = ByAnnotations [(LDAP_UUID_ANNOTATION, uuid)],
                                         dangerousEntityRefFallback =
                                           (case options of
                                              None \<Rightarrow> None
                                            | Some opts \<Rightarrow>
                                                if dangerouslyAllowSignInWithoutUserInCatalog
                                                     opts = Some True
                                                then Some uuid else None)\<rparr>
                                  in ([Lookup call], ctx 0 call))))))"

section \<open>oauth2TokenClaimResolver\<close>

text \<open>
  What the resolver imports from the platform and from the catalog model, as parameters:
  \<open>decodePayload s\<close> is \<^verbatim>\<open>JSON.parse(atob(s))\<close>, which throws or returns the parsed value.
\<close>

record platform =
  decodePayload :: "string \<Rightarrow> thrown + json"
  stringifyEntityRef :: "entity \<Rightarrow> string"
  DEFAULT_NAMESPACE :: string

text \<open>
  The part of the sign-in info the resolver reads: \<open>access_token\<close> is
  \<^verbatim>\<open>info.result.fullProfile?.tokenset.access_token\<close> and \<open>profile_email\<close> is
  \<^verbatim>\<open>info.profile.email\<close>; \<open>None\<close> is \<^verbatim>\<open>undefined\<close>.
\<close>

record sign_in_info =
  access_token :: "string option"
  profile_email :: "string option"

text \<open>
  The module variable of \<^verbatim>\<open>dynamicUsersModule.ts\<close>, unset until the module is initialised,
  and the lines given to \<^verbatim>\<open>console.error\<close>.
\<close>

record world =
  dynamicUserEntityProvider :: "provider option"
  console :: "(string \<times> thrown) list"

text \<open>The \<^verbatim>\<open>init\<close> of the module, and the getter it exports.\<close>

definition dynamicUsersModule_init :: "world \<Rightarrow> world" where
  "dynamicUsersModule_init w = w\<lparr>dynamicUserEntityProvider := Some new_provider\<rparr>"

definition getDynamicUserEntityProvider :: "world \<Rightarrow> thrown + provider" where
  "getDynamicUserEntityProvider w =
     (case dynamicUserEntityProvider w of
        None \<Rightarrow>
          Inl (Error ''DynamicUserEntityProvider has not been initialized yet. Ensure the dynamicUsersModule has been registered and initialized.'')
      | Some p \<Rightarrow> Inr p)"

definition MAX_RETRIES :: nat where
  "MAX_RETRIES = 10"

definition RETRY_DELAY_MS :: nat where
  "RETRY_DELAY_MS = 300"

text \<open>
  \<^verbatim>\<open>JSON.parse(atob(tokens[1]))\<close>: indexing \<^verbatim>\<open>undefined\<close> throws, and a missing second
  segment reaches \<^verbatim>\<open>atob\<close> as the text \<^verbatim>\<open>undefined\<close>.
\<close>

definition decodeClaims :: "platform \<Rightarrow> string option \<Rightarrow> thrown + json" where
  "decodeClaims pf accessToken =
     (case map_option (split_on CHR ''.'') accessToken of
        None \<Rightarrow>
          Inl (TypeError (''Cannot read properties of undefined (reading '' @
                          [CHR 0x27] @ ''1'' @ [CHR 0x27] @ '')''))
      | Some tokens \<Rightarrow>
          decodePayload pf (case tokens of _ # t # _ \<Rightarrow> t | _ \<Rightarrow> ''undefined''))"

text \<open>
  Lines 201 to 207: the entitlements of the claims and the group references made of them.
  \<^verbatim>\<open>concat\<close> on an array spreads an array argument and appends any other value; a
  \<^verbatim>\<open>groups\<close> claim that is a string has \<^verbatim>\<open>concat\<close> but the result has no \<^verbatim>\<open>map\<close>, and
  any other value has no \<^verbatim>\<open>concat\<close>.
\<close>

definition claimGroups :: "json \<Rightarrow> thrown + string list" where
  "claimGroups claims =
     (let roles =
            nullish (opt_chain (opt_chain (opt_chain (Some claims) ''resource_access'') ''octo'')
                       ''roles'') (JArr [])
      in case nullish (opt_chain (Some claims) ''groups'') (JArr []) of
           JArr entitlements \<Rightarrow>
             Inr (map (\<lambda>entitlement. ''group:default/'' @ js_to_string entitlement)
                    (entitlements @ (case roles of JArr rs \<Rightarrow> rs | r \<Rightarrow> [r])))
         | JStr s \<Rightarrow> Inl (TypeError ''entitlements?.map is not a function'')
         | _ \<Rightarrow> Inl (TypeError ''entitlements.concat is not a function''))"

text \<open>Lines 200 and 209 to 227.\<close>

definition userEntityOf :: "platform \<Rightarrow> string \<Rightarrow> string list \<Rightarrow> entity" where
  "userEntityOf pf addr groups =
     (let username = hd (split_on CHR ''@'' addr)
      in \<lparr>apiVersion = ''backstage.io/v1alpha1'',
          kind = ''User'',
          metadata =
            \<lparr>name = username,
             namespace = Some (DEFAULT_NAMESPACE pf),
             annotations =
               [(''backstage.io/managed-by-location'', ''url:dynamic-user-provider''),
                (''backstage.io/managed-by-origin-location'', ''url:dynamic-user-provider'')]\<rparr>,
          spec =
            \<lparr>profile = \<lparr>displayName = username, email = addr\<rparr>,
             memberOf = groups\<rparr>\<rparr>)"

text \<open>Lines 189 to 227: the identity record, or what is thrown before it is built.\<close>

definition buildUserEntity :: "platform \<Rightarrow> sign_in_info \<Rightarrow> thrown + entity" where
  "buildUserEntity pf info =
     (case decodeClaims pf (access_token info) of
        Inl err \<Rightarrow> Inl err
      | Inr claims \<Rightarrow>
          (case profile_email info of
             None \<Rightarrow> Inl (Error ''Login failed, user profile does not contain an email'')
           | Some addr \<Rightarrow>
               if addr = []
               then Inl (Error ''Login failed, user profile does not contain an email'')
               else
                 (case claimGroups claims of
                    Inl err \<Rightarrow> Inl err
                  | Inr groups \<Rightarrow> Inr (userEntityOf pf addr groups))))"

text \<open>
  Lines 229 to 233, with \<open>getDynamicUserEntityProvider\<close> for the getter the resolver is
  given: whatever the \<^verbatim>\<open>try\<close> block throws, from the getter or from the provider, is given
  to \<^verbatim>\<open>console.error\<close> and dropped.
\<close>

definition provisionUser :: "world \<Rightarrow> entity \<Rightarrow> world" where
  "provisionUser w userEntity =
     (case getDynamicUserEntityProvider w of
        Inl err \<Rightarrow>
          w\<lparr>console := console w @ [(''Failed to add user to catalog via provider:'', err)]\<rparr>
      | Inr p \<Rightarrow>
          (case addOrUpdateUser p userEntity of
             (p', Inr _) \<Rightarrow> w\<lparr>dynamicUserEntityProvider := Some p'\<rparr>
           | (p', Inl err) \<Rightarrow>
               w\<lparr>dynamicUserEntityProvider := Some p',
                 console := console w @
                   [(''Failed to add user to catalog via provider:'', err)]\<rparr>))"

text \<open>
  The variables of the loop of lines 235 to 265, with the number of calls made on the context
  and the events so far.
\<close>

record retry_state =
  result :: "sign_in_result option"
  attempt :: nat
  calls :: nat
  events :: "event list"

text \<open>The argument of the call of line 242: \<^verbatim>\<open>{entityRef: userEntityRef}\<close>, no options.\<close>

definition entityRefCall :: "string \<Rightarrow> sign_in_call" where
  "entityRefCall userEntityRef =
     \<lparr>query = ByEntityRef userEntityRef, dangerousEntityRefFallback = None\<rparr>"

text \<open>
  The test of lines 247 to 252, and with it the test of line 254: the classification of a
  failed lookup as "not found".
\<close>

definition has_name_and_message :: "thrown \<Rightarrow> bool" where
  "has_name_and_message err =
     (case err of ErrObject (Some n) (Some m) \<Rightarrow> True | _ \<Rightarrow> False)"

definition is_not_found :: "thrown + sign_in_result \<Rightarrow> bool" where
  "is_not_found r =
     (case r of
        Inl (ErrObject (Some n) (Some m)) \<Rightarrow> n = Str ''NotFoundError''
      | _ \<Rightarrow> False)"

text \<open>
  The loop may run for ever, so it is a partial function: \<open>None\<close> when it does. Otherwise
  the state at the exit, with the value thrown out of the loop if one is.
\<close>

partial_function (option) signInLoop ::
  "resolver_context \<Rightarrow> string \<Rightarrow> retry_state \<Rightarrow> (retry_state \<times> thrown option) option" where
  "signInLoop ctx userEntityRef s =
     (if attempt s < MAX_RETRIES then
        (let call = entityRefCall userEntityRef;
             s1 = s\<lparr>calls := calls s + 1, events := events s @ [Lookup call]\<rparr>
         in case ctx (calls s) call of
              Inr r \<Rightarrow> Some (s1\<lparr>result := Some r\<rparr>, None)
            | Inl err \<Rightarrow>
                (case err of
                   ErrObject (Some n) (Some m) \<Rightarrow>
                     if n = Str ''NotFoundError''
                     then signInLoop ctx userEntityRef
                            (s1\<lparr>events := events s1 @ [Sleep RETRY_DELAY_MS],
                                attempt := attempt s1 + 1\<rparr>)
                     else Some (s1,
                            Some (Error (''Failed to sign in with catalog user: '' @
                                         prop_text m)))
                 | _ \<Rightarrow> signInLoop ctx userEntityRef s1))
      else Some (s, None))"

text \<open>
  Lines 235 to 273: the loop from its initial state, and the check that follows it. A
  sign-in result is an object, so \<^verbatim>\<open>!result\<close> holds exactly when no lookup has succeeded.
\<close>

definition retrySignIn ::
  "resolver_context \<Rightarrow> string \<Rightarrow> (event list \<times> (thrown + sign_in_result)) option" where
  "retrySignIn ctx userEntityRef =
     (case signInLoop ctx userEntityRef \<lparr>result = None, attempt = 0, calls = 0, events = []\<rparr> of
        None \<Rightarrow> None
      | Some (s, Some err) \<Rightarrow> Some (events s, Inl err)
      | Some (s, None) \<Rightarrow>
          (case result s of
             None \<Rightarrow>
               Some (events s,
                 Inl (Error (''User entity '' @ userEntityRef @ '' not found in catalog after '' @
                             string_of_nat MAX_RETRIES @ '' attempts'')))
           | Some r \<Rightarrow> Some (events s, Inr r)))"

text \<open>
  The resolver: \<open>None\<close> when it never settles, otherwise the world after it, its events and
  what it settles to.
\<close>

definition oauth2TokenClaimResolver ::
  "platform \<Rightarrow> sign_in_info \<Rightarrow> resolver_context \<Rightarrow> world \<Rightarrow>
   (world \<times> event list \<times> (thrown + sign_in_result)) option" where
  "oauth2TokenClaimResolver pf info ctx w =
     (case buildUserEntity pf info of
        Inl err \<Rightarrow> Some (w, [], Inl err)
      | Inr userEntity \<Rightarrow>
          (let userEntityRef = stringifyEntityRef pf userEntity;
               w1 = provisionUser w userEntity
           in map_option (\<lambda>(evs, res). (w1, evs, res)) (retrySignIn ctx userEntityRef)))"

section \<open>Example values\<close>

definition alice :: entity where
  "alice =
     \<lparr>apiVersion = ''backstage.io/v1alpha1'', kind = ''User'',
      metadata = \<lparr>name = ''alice'', namespace = Some ''default'', annotations = []\<rparr>,
      spec = \<lparr>profile = \<lparr>displayName = ''alice'', email = ''alice@example.com''\<rparr>,
              memberOf = []\<rparr>\<rparr>"

definition alice_promoted :: entity where
  "alice_promoted =
     alice\<lparr>spec := \<lparr>profile = \<lparr>displayName = ''alice'', email = ''alice@example.com''\<rparr>,
                     memberOf = [''group:default/admins'']\<rparr>\<rparr>"

definition bob :: entity where
  "bob =
     \<lparr>apiVersion = ''backstage.io/v1alpha1'', kind = ''User'',
      metadata = \<lparr>name = ''bob'', namespace = Some ''default'', annotations = []\<rparr>,
      spec = \<lparr>profile = \<lparr>displayName = ''bob'', email = ''bob@example.com''\<rparr>,
              memberOf = []\<rparr>\<rparr>"

definition accepting :: connection where
  "accepting = (\<lambda>earlier m. None)"

definition rejecting :: connection where
  "rejecting = (\<lambda>earlier m. Some (Error ''catalog unavailable''))"

definition app_claims :: json where
  "app_claims =
     JObj [(''groups'', JArr [JStr ''a'']),
           (''resource_access'', JObj [(''app'', JObj [(''roles'', JArr [JStr ''b''])])])]"

definition octo_claims :: json where
  "octo_claims =
     JObj [(''groups'', JArr [JStr ''a'']),
           (''resource_access'', JObj [(''octo'', JObj [(''roles'', JArr [JStr ''b''])])])]"

definition example_platform :: platform where
  "example_platform =
     \<lparr>decodePayload = (\<lambda>s. if s = ''payload'' then Inr octo_claims
                             else Inl (Error ''not a payload'')),
      stringifyEntityRef = (\<lambda>e. ''user:default/'' @ name (metadata e)),
      DEFAULT_NAMESPACE = ''default''\<rparr>"

definition jdoe_info :: sign_in_info where
  "jdoe_info =
     \<lparr>access_token = Some ''header.payload.signature'',
      profile_email = Some ''jdoe@example.com''\<rparr>"

definition jdoe :: entity where
  "jdoe =
     userEntityOf example_platform ''jdoe@example.com''
       [''group:default/a'', ''group:default/b'']"

definition never_found :: resolver_context where
  "never_found =
     (\<lambda>n call. Inl (ErrObject (Some (Str ''NotFoundError'')) (Some (Str ''no such user''))))"

definition conflict_error :: thrown where
  "conflict_error = ErrObject (Some (Str ''ConflictError'')) (Some (Str ''boom''))"

definition always_conflict :: resolver_context where
  "always_conflict = (\<lambda>n call. Inl conflict_error)"

definition always_text :: resolver_context where
  "always_text = (\<lambda>n call. Inl (Primitive ''timeout''))"

definition ldap_profile :: oidc_profile where
  "ldap_profile =
     \<lparr>userinfo = (\<lambda>k. if k = ''ldap_uuid'' then Some (JStr ''uuid-1'') else None),
      id_token = Some ''id.token.sig''\<rparr>"

definition ldap_payload :: "string \<Rightarrow> json option" where
  "ldap_payload = (\<lambda>k. if k = ''ldap_uuid'' then Some (JStr ''uuid-2'') else None)"

definition ldap_decodeJwt :: "string \<Rightarrow> thrown + (string \<Rightarrow> json option)" where
  "ldap_decodeJwt = (\<lambda>t. Inr ldap_payload)"

definition empty_uuid_profile :: oidc_profile where
  "empty_uuid_profile =
     \<lparr>userinfo = (\<lambda>k. if k = ''ldap_uuid'' then Some (JStr []) else None),
      id_token = Some ''id.token.sig''\<rparr>"

definition text_then_found :: resolver_context where
  "text_then_found =
     (\<lambda>n call. if n < 12 then Inl (Primitive ''timeout'') else Inr \<lparr>token = ''t''\<rparr>)"

definition always_signs_in :: resolver_context where
  "always_signs_in = (\<lambda>n call. Inr \<lparr>token = ''t''\<rparr>)"

section \<open>The cache\<close>

lemma keys_map_set: "fst ` set (map_set kvs k v) = insert k (fst ` set kvs)"
  by (induction kvs) (force+)

lemma distinct_map_set:
  "distinct (map fst kvs) \<Longrightarrow> distinct (map fst (map_set kvs k v))"
  by (induction kvs) (auto simp: keys_map_set)

lemma map_of_map_set: "map_of (map_set kvs k v) = (map_of kvs)(k \<mapsto> v)"
  by (induction kvs) (auto simp: fun_eq_iff)

lemma set_map_set: "set (map_set kvs k v) \<subseteq> insert (k, v) (set kvs)"
  by (induction kvs) (auto split: if_splits)

lemma keyed_map_set: "keyed c \<Longrightarrow> keyed (map_set c (entityKey e) (deferred e))"
  unfolding keyed_def
  using set_map_set [of c "entityKey e" "deferred e"]
  by (auto simp: distinct_map_set deferred_def)

lemma userCache_addOrUpdateUser:
  "userCache (fst (addOrUpdateUser p e)) = map_set (userCache p) (entityKey e) (deferred e)"
  by (simp add: addOrUpdateUser_def Let_def split: option.splits)

lemma keyed_addOrUpdateUsers:
  "keyed (userCache p) \<Longrightarrow> keyed (userCache (addOrUpdateUsers p es))"
  by (induction es arbitrary: p) (simp_all add: userCache_addOrUpdateUser keyed_map_set)

lemma keys_addOrUpdateUsers:
  "fst ` set (userCache (addOrUpdateUsers p es)) = fst ` set (userCache p) \<union> entityKey ` set es"
  by (induction es arbitrary: p) (auto simp: userCache_addOrUpdateUser keys_map_set)

lemma map_of_addOrUpdateUsers:
  "map_of (userCache (addOrUpdateUsers p es)) k =
     (if k \<in> entityKey ` set es then Some (deferred (last [e \<leftarrow> es. entityKey e = k]))
      else map_of (userCache p) k)"
proof (induction es arbitrary: p)
  case Nil
  show ?case by simp
next
  case (Cons e es)
  show ?case
    by (auto simp: Cons.IH userCache_addOrUpdateUser map_of_map_set filter_empty_conv)
qed

lemma keyed_filter:
  "keyed c \<Longrightarrow>
     [d \<leftarrow> map snd c. entityKey (entity d) = k] =
       (case map_of c k of None \<Rightarrow> [] | Some d \<Rightarrow> [d])"
proof (induction c)
  case Nil
  show ?case by simp
next
  case (Cons kv c)
  from Cons.prems have dist: "distinct (map fst (kv # c))"
    unfolding keyed_def by (rule conjunct1)
  from Cons.prems have kc: "keyed c"
    and kv: "fst kv = entityKey (entity (snd kv))"
    by (simp_all add: keyed_def)
  from dist have fresh: "fst kv \<notin> fst ` set c" by simp
  note IH = Cons.IH [OF kc]
  show ?case
  proof (cases "fst kv = k")
    case True
    with fresh have "map_of c k = None" by (simp add: map_of_eq_None_iff)
    with True kv IH show ?thesis by (cases kv) auto
  next
    case False
    with kv IH show ?thesis by (cases kv) auto
  qed
qed

lemma entityKey_examples:
  "entityKey alice = ''User:default/alice''"
  "entityKey alice_promoted = ''User:default/alice''"
  "entityKey bob = ''User:default/bob''"
  by (simp_all add: entityKey_def alice_def alice_promoted_def bob_def)

text \<open>
  C4. On a provider whose cache is empty, after any sequence of calls of
  \<open>addOrUpdateUser\<close> (whatever the connection does), \<open>getAllUsers\<close> holds for every stable
  key \<open>k\<close> exactly one deferred entity when \<open>k\<close> is the key of an upserted entity, the one made
  from the last entity upserted under \<open>k\<close>, and none otherwise. So the snapshot has as many
  elements as the upserts have distinct keys, and as many as there are upserts when their
  keys are pairwise distinct.
\<close>

theorem snapshot_one_per_key_last_write_wins:
  assumes "userCache p = []"
  shows "(\<forall>k. [d \<leftarrow> getAllUsers (addOrUpdateUsers p es). entityKey (entity d) = k] =
              (if k \<in> entityKey ` set es
               then [deferred (last [e \<leftarrow> es. entityKey e = k])] else [])) \<and>
         length (getAllUsers (addOrUpdateUsers p es)) = card (entityKey ` set es) \<and>
         (distinct (map entityKey es) \<longrightarrow>
            length (getAllUsers (addOrUpdateUsers p es)) = length es)"
proof -
  let ?c = "userCache (addOrUpdateUsers p es)"
  have "keyed (userCache p)" using assms by (simp add: keyed_def)
  then have k: "keyed ?c" by (rule keyed_addOrUpdateUsers)
  have one: "[d \<leftarrow> getAllUsers (addOrUpdateUsers p es). entityKey (entity d) = k] =
           (if k \<in> entityKey ` set es
            then [deferred (last [e \<leftarrow> es. entityKey e = k])] else [])" for k
    using keyed_filter [OF k, of k] assms
    by (simp add: getAllUsers_def map_values_def map_of_addOrUpdateUsers)
  have "length ?c = card (fst ` set ?c)"
    using k by (metis keyed_def distinct_card length_map set_map)
  then have len: "length (getAllUsers (addOrUpdateUsers p es)) = card (entityKey ` set es)"
    using assms by (simp add: getAllUsers_def map_values_def keys_addOrUpdateUsers)
  have "length (getAllUsers (addOrUpdateUsers p es)) = length es"
    if "distinct (map entityKey es)"
    using len that by (metis distinct_card length_map set_map)
  with one len show ?thesis by blast
qed

theorem snapshot_one_per_key_last_write_wins_witness:
  "userCache new_provider = [] \<and>
   [d \<leftarrow> getAllUsers (addOrUpdateUsers new_provider [alice, bob, alice_promoted]).
      entityKey (entity d) = ''User:default/alice''] = [deferred alice_promoted] \<and>
   length (getAllUsers (addOrUpdateUsers new_provider [alice, bob, alice_promoted])) = 2 \<and>
   distinct (map entityKey [alice, bob]) \<and>
   length (getAllUsers (addOrUpdateUsers new_provider [alice, bob])) = 2"
proof -
  have e: "userCache new_provider = []" by (simp add: new_provider_def)
  have d: "distinct (map entityKey [alice, bob])" by (simp add: entityKey_examples)
  have c: "card (entityKey ` set [alice, bob, alice_promoted]) = 2"
    by (simp add: entityKey_examples card_insert_if)
  from snapshot_one_per_key_last_write_wins [OF e, of "[alice, bob, alice_promoted]"]
       snapshot_one_per_key_last_write_wins [OF e, of "[alice, bob]"] e d c
  show ?thesis
    by (simp add: entityKey_examples)
qed

text \<open>
  C5. A call of \<open>addOrUpdateUser\<close> or of \<open>removeUser\<close> adds at most one call of
  \<open>applyMutation\<close>, and that call is of type \<open>full\<close> and carries the whole cache as it is
  after the call: \<open>addOrUpdateUser\<close> publishes when a connection is registered,
  \<open>removeUser\<close> when moreover the key is in the cache.
\<close>

theorem publish_is_full_snapshot:
  "applied (fst (addOrUpdateUser p e)) =
     applied p @
       (if connection p = None then []
        else [Full (getAllUsers (fst (addOrUpdateUser p e)))]) \<and>
   applied (fst (removeUser p k)) =
     applied p @
       (if connection p = None \<or> map_of (userCache p) k = None then []
        else [Full (getAllUsers (fst (removeUser p k)))])"
  by (auto simp: addOrUpdateUser_def removeUser_def getAllUsers_def Let_def
           split: option.splits)

theorem publish_is_full_snapshot_witness:
  "applied (fst (addOrUpdateUser (connect new_provider accepting) alice)) =
     [Full [deferred alice]] \<and>
   applied (fst (removeUser (fst (addOrUpdateUser (connect new_provider accepting) alice))
                   ''User:default/alice'')) =
     [Full [deferred alice], Full []]"
  using publish_is_full_snapshot [of "connect new_provider accepting" alice]
        publish_is_full_snapshot
          [of "fst (addOrUpdateUser (connect new_provider accepting) alice)" _
              "''User:default/alice''"]
  by (simp add: addOrUpdateUser_def removeUser_def connect_def new_provider_def accepting_def
        getAllUsers_def map_values_def map_delete_def Let_def entityKey_examples)

text \<open>
  C7, as the code has it. \<open>removeUser\<close> acts only when the key is in the cache and a
  connection is registered: it then deletes the slot and publishes the whole cache that is
  left, once, and settles as that call does. In every other case, the key absent or no
  connection registered, it changes nothing and publishes nothing.
\<close>

theorem removeUser_needs_key_and_connection:
  "(map_of (userCache p) k \<noteq> None \<and> connection p = Some c \<longrightarrow>
      userCache (fst (removeUser p k)) = map_delete (userCache p) k \<and>
      map_of (userCache (fst (removeUser p k))) k = None \<and>
      applied (fst (removeUser p k)) =
        applied p @ [Full (map_values (map_delete (userCache p) k))] \<and>
      snd (removeUser p k) =
        (case c (applied p) (Full (map_values (map_delete (userCache p) k))) of
           None \<Rightarrow> Inr () | Some err \<Rightarrow> Inl err)) \<and>
   (map_of (userCache p) k = None \<or> connection p = None \<longrightarrow>
      removeUser p k = (p, Inr ()))"
proof -
  have "map_of (map_delete (userCache p) k) k = None"
    by (simp add: map_delete_def map_of_eq_None_iff image_iff)
  then show ?thesis
    by (auto simp: removeUser_def Let_def split: option.splits)
qed

theorem removeUser_needs_key_and_connection_witness:
  "getAllUsers (fst (removeUser (fst (addOrUpdateUser (connect new_provider accepting) alice))
                       ''User:default/alice'')) = [] \<and>
   removeUser (connect new_provider accepting) ''User:default/alice'' =
     (connect new_provider accepting, Inr ())"
  using removeUser_needs_key_and_connection
          [of "fst (addOrUpdateUser (connect new_provider accepting) alice)"
              "''User:default/alice''" accepting]
        removeUser_needs_key_and_connection
          [of "connect new_provider accepting" "''User:default/alice''" accepting]
  by (simp add: addOrUpdateUser_def connect_def new_provider_def accepting_def
        getAllUsers_def map_values_def map_delete_def Let_def entityKey_examples)

text \<open>
  The claim C7 as it is written fails on a provider that has no connection: the key is in
  the cache, and \<open>removeUser\<close> leaves it there.
\<close>

theorem removeUser_present_key_not_deleted:
  "map_of (userCache (fst (addOrUpdateUser new_provider alice))) ''User:default/alice'' =
     Some (deferred alice) \<and>
   map_of (userCache (fst (removeUser (fst (addOrUpdateUser new_provider alice))
                             ''User:default/alice''))) ''User:default/alice'' =
     Some (deferred alice)"
  by (simp add: addOrUpdateUser_def removeUser_def new_provider_def Let_def entityKey_examples)

section \<open>Building the identity record\<close>

lemma split_on_nonempty: "split_on c s \<noteq> []"
  by (induction s) (auto split: list.splits)

lemma hd_split_on: "hd (split_on c s) = takeWhile (\<lambda>x. x \<noteq> c) s"
  by (induction s) (auto split: list.splits simp: split_on_nonempty)

text \<open>
  C3, as the code has it. The role list is read at \<^verbatim>\<open>resource_access.octo.roles\<close>. For
  claims whose \<^verbatim>\<open>groups\<close> is the list of strings \<open>gs\<close> and whose role list there is the list
  of strings \<open>rs\<close>, the group references are \<open>gs\<close> followed by \<open>rs\<close>, duplicates kept, each
  entitlement \<open>e\<close> mapped to \<^verbatim>\<open>group:default/\<close> followed by \<open>e\<close>.
\<close>

theorem claim_groups_then_octo_roles:
  assumes "map_of claims ''groups'' = Some (JArr (map JStr gs))"
    and "map_of claims ''resource_access'' = Some (JObj access)"
    and "map_of access ''octo'' = Some (JObj client)"
    and "map_of client ''roles'' = Some (JArr (map JStr rs))"
  shows "claimGroups (JObj claims) = Inr (map (\<lambda>e. ''group:default/'' @ e) (gs @ rs))"
  using assms by (simp add: claimGroups_def comp_def)

theorem claim_groups_then_octo_roles_witness:
  "claimGroups octo_claims = Inr [''group:default/a'', ''group:default/b'']"
  using claim_groups_then_octo_roles
          [of "[(''groups'', JArr [JStr ''a'']),
                (''resource_access'', JObj [(''octo'', JObj [(''roles'', JArr [JStr ''b''])])])]"
              "[''a'']" "[(''octo'', JObj [(''roles'', JArr [JStr ''b''])])]"
              "[(''roles'', JArr [JStr ''b''])]" "[''b'']"]
  by (simp add: octo_claims_def)

text \<open>
  The payload of C3 as it is written has its roles under \<^verbatim>\<open>app\<close>, where the code does not
  look: only the group of \<^verbatim>\<open>groups\<close> comes out.
\<close>

theorem claim_groups_app_roles_ignored:
  "claimGroups app_claims = Inr [''group:default/a''] \<and>
   claimGroups app_claims \<noteq> Inr [''group:default/a'', ''group:default/b'']"
  by (simp add: claimGroups_def app_claims_def)

text \<open>
  C8. When the profile has a non-empty email, the resolver builds an identity record as soon
  as the token decodes and its claims give group references, and every identity record it
  builds has as name the email up to its first \<^verbatim>\<open>@\<close>, as namespace the default namespace,
  and as profile the name as display name with the email.
\<close>

theorem identity_record_of_email:
  assumes "profile_email info = Some addr" and "addr \<noteq> []"
  shows "(decodeClaims pf (access_token info) = Inr claims \<and> claimGroups claims = Inr gs \<longrightarrow>
            buildUserEntity pf info = Inr (userEntityOf pf addr gs)) \<and>
         (buildUserEntity pf info = Inr e \<longrightarrow>
            name (metadata e) = takeWhile (\<lambda>c. c \<noteq> CHR ''@'') addr \<and>
            namespace (metadata e) = Some (DEFAULT_NAMESPACE pf) \<and>
            profile (spec e) = \<lparr>displayName = name (metadata e), email = addr\<rparr>)"
proof -
  have built: "buildUserEntity pf info = Inr (userEntityOf pf addr gs)"
    if "decodeClaims pf (access_token info) = Inr claims" "claimGroups claims = Inr gs"
    using assms that by (simp add: buildUserEntity_def)
  have fields: "name (metadata e) = takeWhile (\<lambda>c. c \<noteq> CHR ''@'') addr \<and>
      namespace (metadata e) = Some (DEFAULT_NAMESPACE pf) \<and>
      profile (spec e) = \<lparr>displayName = name (metadata e), email = addr\<rparr>"
    if "buildUserEntity pf info = Inr e"
    using assms that
    by (auto simp: buildUserEntity_def userEntityOf_def hd_split_on Let_def
             split: sum.splits)
  from built fields show ?thesis by blast
qed

lemma buildUserEntity_jdoe: "buildUserEntity example_platform jdoe_info = Inr jdoe"
  by (simp add: buildUserEntity_def decodeClaims_def example_platform_def jdoe_info_def
        jdoe_def claimGroups_def octo_claims_def)

theorem identity_record_of_email_witness:
  "profile_email jdoe_info = Some ''jdoe@example.com'' \<and>
   decodeClaims example_platform (access_token jdoe_info) = Inr octo_claims \<and>
   claimGroups octo_claims = Inr [''group:default/a'', ''group:default/b''] \<and>
   buildUserEntity example_platform jdoe_info =
     Inr (userEntityOf example_platform ''jdoe@example.com''
            [''group:default/a'', ''group:default/b'']) \<and>
   name (metadata jdoe) = ''jdoe'' \<and>
   namespace (metadata jdoe) = Some ''default'' \<and>
   profile (spec jdoe) = \<lparr>displayName = ''jdoe'', email = ''jdoe@example.com''\<rparr>"
proof -
  have m: "profile_email jdoe_info = Some ''jdoe@example.com''"
    by (simp add: jdoe_info_def)
  have n: "''jdoe@example.com'' \<noteq> []" by simp
  have d: "decodeClaims example_platform (access_token jdoe_info) = Inr octo_claims"
    by (simp add: decodeClaims_def example_platform_def jdoe_info_def)
  have g: "claimGroups octo_claims = Inr [''group:default/a'', ''group:default/b'']"
    by (simp add: claimGroups_def octo_claims_def)
  from identity_record_of_email
         [OF m n, of example_platform octo_claims
            "[''group:default/a'', ''group:default/b'']" jdoe]
       m d g
  show ?thesis by (simp add: example_platform_def jdoe_def)
qed

section \<open>The UUID cross-check\<close>

lemma js_strict_equal_same: "js_strict_equal (Some a) (Some b) \<Longrightarrow> a = b"
  by (cases a; cases b; simp)

text \<open>
  C9, as the code has it. When the userinfo has the UUID claim and its value is truthy (not
  the empty string, zero, \<^verbatim>\<open>false\<close> or \<^verbatim>\<open>null\<close>), the ID token is there and decodes, its
  payload has the claim too, and the two values differ, the resolver fails with the mismatch
  error and has made no call of \<open>signInWithCatalogUser\<close>.
\<close>

theorem uuid_mismatch_fails_without_lookup:
  assumes "userinfo info (uuidKeyOf options) = Some uuid" and "js_truthy uuid"
    and "id_token info = Some idToken" and "idToken \<noteq> []"
    and "decodeJwt idToken = Inr payload"
    and "payload (uuidKeyOf options) = Some uuidFromIdToken"
    and "uuid \<noteq> uuidFromIdToken"
  shows "oidcLdapUuidMatchingAnnotation decodeJwt options info ctx =
           ([], Inl (Error uuid_mismatch_message))"
proof -
  from assms(7) have "\<not> js_strict_equal (Some uuid) (Some uuidFromIdToken)"
    using js_strict_equal_same by blast
  with assms show ?thesis
    by (simp add: oidcLdapUuidMatchingAnnotation_def Let_def)
qed

theorem uuid_mismatch_fails_without_lookup_witness:
  "userinfo ldap_profile (uuidKeyOf None) = Some (JStr ''uuid-1'') \<and>
   js_truthy (JStr ''uuid-1'') \<and>
   id_token ldap_profile = Some ''id.token.sig'' \<and>
   oidcLdapUuidMatchingAnnotation ldap_decodeJwt None ldap_profile always_signs_in =
     ([], Inl (Error uuid_mismatch_message))"
  using uuid_mismatch_fails_without_lookup
          [of ldap_profile None "JStr ''uuid-1''" "''id.token.sig''" ldap_decodeJwt
              ldap_payload "JStr ''uuid-2''" always_signs_in]
  by (simp add: ldap_profile_def ldap_decodeJwt_def ldap_payload_def uuidKeyOf_def)

text \<open>
  The claim C9 as it is written fails when the UUID claim of the userinfo is present and
  falsy. Here it is the empty string and the ID token has another value: the two differ,
  and the resolver fails with the error of lines 140 to 144, that the UUID is missing, which
  is not the mismatch error.
\<close>

theorem uuid_present_but_empty_reported_missing:
  "userinfo empty_uuid_profile (uuidKeyOf None) = Some (JStr []) \<and>
   id_token empty_uuid_profile = Some ''id.token.sig'' \<and>
   ldap_decodeJwt ''id.token.sig'' = Inr ldap_payload \<and>
   ldap_payload (uuidKeyOf None) = Some (JStr ''uuid-2'') \<and>
   JStr [] \<noteq> JStr ''uuid-2'' \<and>
   oidcLdapUuidMatchingAnnotation ldap_decodeJwt None empty_uuid_profile always_signs_in =
     ([], Inl (Error uuid_missing_message)) \<and>
   oidcLdapUuidMatchingAnnotation ldap_decodeJwt None empty_uuid_profile always_signs_in \<noteq>
     ([], Inl (Error uuid_mismatch_message))"
  by (simp add: oidcLdapUuidMatchingAnnotation_def empty_uuid_profile_def ldap_decodeJwt_def
        ldap_payload_def uuidKeyOf_def Error_def uuid_missing_message_def
        uuid_mismatch_message_def)

section \<open>The retry loop\<close>

lemma string_of_MAX_RETRIES: "string_of_nat MAX_RETRIES = ''10''"
  by code_simp

lemma signInLoop_exit:
  "\<not> attempt s < MAX_RETRIES \<Longrightarrow> signInLoop ctx ref s = Some (s, None)"
  by (subst signInLoop.simps) simp

lemma signInLoop_found:
  assumes "attempt s < MAX_RETRIES" and "ctx (calls s) (entityRefCall ref) = Inr r"
  shows "signInLoop ctx ref s =
           Some (s\<lparr>calls := calls s + 1, events := events s @ [Lookup (entityRefCall ref)],
                   result := Some r\<rparr>, None)"
  using assms by (subst signInLoop.simps) (simp add: Let_def)

lemma signInLoop_not_found:
  assumes "attempt s < MAX_RETRIES" and "is_not_found (ctx (calls s) (entityRefCall ref))"
  shows "signInLoop ctx ref s =
           signInLoop ctx ref
             (s\<lparr>calls := calls s + 1,
                events := events s @ [Lookup (entityRefCall ref), Sleep RETRY_DELAY_MS],
                attempt := attempt s + 1\<rparr>)"
  using assms
  by (subst signInLoop.simps)
     (auto simp: is_not_found_def Let_def split: sum.splits thrown.splits option.splits)

lemma signInLoop_other_failure:
  assumes "attempt s < MAX_RETRIES"
    and "ctx (calls s) (entityRefCall ref) = Inl (ErrObject (Some n) (Some m))"
    and "n \<noteq> Str ''NotFoundError''"
  shows "signInLoop ctx ref s =
           Some (s\<lparr>calls := calls s + 1, events := events s @ [Lookup (entityRefCall ref)]\<rparr>,
                 Some (Error (''Failed to sign in with catalog user: '' @ prop_text m)))"
  using assms by (subst signInLoop.simps) (simp add: Let_def)

lemma signInLoop_unclassified:
  assumes "attempt s < MAX_RETRIES" and "ctx (calls s) (entityRefCall ref) = Inl err"
    and "\<not> has_name_and_message err"
  shows "signInLoop ctx ref s =
           signInLoop ctx ref
             (s\<lparr>calls := calls s + 1, events := events s @ [Lookup (entityRefCall ref)]\<rparr>)"
  using assms
  by (subst signInLoop.simps)
     (auto simp: has_name_and_message_def Let_def split: thrown.splits option.splits)

lemma signInLoop_always_not_found:
  assumes nf: "\<forall>n. is_not_found (ctx n (entityRefCall ref))"
  shows "attempt s + k = MAX_RETRIES \<Longrightarrow>
         signInLoop ctx ref s =
           Some (s\<lparr>calls := calls s + k,
                   events := events s @
                     concat (replicate k [Lookup (entityRefCall ref), Sleep RETRY_DELAY_MS]),
                   attempt := MAX_RETRIES\<rparr>, None)"
proof (induction k arbitrary: s)
  case 0
  then show ?case by (simp add: signInLoop_exit)
next
  case (Suc k)
  let ?s = "s\<lparr>calls := calls s + 1,
              events := events s @ [Lookup (entityRefCall ref), Sleep RETRY_DELAY_MS],
              attempt := attempt s + 1\<rparr>"
  from Suc.prems have lt: "attempt s < MAX_RETRIES" by simp
  from nf have "is_not_found (ctx (calls s) (entityRefCall ref))" by blast
  with lt have "signInLoop ctx ref s = signInLoop ctx ref ?s"
    by (rule signInLoop_not_found)
  also have "\<dots> =
      Some (?s\<lparr>calls := calls ?s + k,
               events := events ?s @
                 concat (replicate k [Lookup (entityRefCall ref), Sleep RETRY_DELAY_MS]),
               attempt := MAX_RETRIES\<rparr>, None)"
    using Suc.prems by (intro Suc.IH) simp
  finally show ?case by simp
qed

lemma signInLoop_never_settles:
  assumes "signInLoop ctx ref s = Some y"
  shows "\<not> ((\<forall>n. \<exists>err. ctx n (entityRefCall ref) = Inl err \<and> \<not> has_name_and_message err) \<and>
            attempt s < MAX_RETRIES)"
  using assms
proof (induction ctx ref s y rule: signInLoop.raw_induct [rotated 1, consumes 1])
  case (1 loop ctx ref s y)
  show ?case
  proof
    assume a: "(\<forall>n. \<exists>err. ctx n (entityRefCall ref) = Inl err \<and> \<not> has_name_and_message err) \<and>
               attempt s < MAX_RETRIES"
    then obtain err where e: "ctx (calls s) (entityRefCall ref) = Inl err"
        "\<not> has_name_and_message err"
      by blast
    let ?s1 = "s\<lparr>calls := calls s + 1, events := events s @ [Lookup (entityRefCall ref)]\<rparr>"
    from 1(2) a e have "loop ctx ref ?s1 = Some y"
      by (auto simp: has_name_and_message_def Let_def split: thrown.splits option.splits)
    from 1(1) [OF this] a show False by simp
  qed
qed

lemma signInLoop_unclassified_run:
  assumes lt: "attempt s < MAX_RETRIES"
  shows "(\<forall>n<k. \<exists>err. ctx (calls s + n) (entityRefCall ref) = Inl err \<and>
                     \<not> has_name_and_message err) \<Longrightarrow>
         ctx (calls s + k) (entityRefCall ref) = Inr r \<Longrightarrow>
         signInLoop ctx ref s =
           Some (s\<lparr>calls := calls s + k + 1,
                   events := events s @ replicate (k + 1) (Lookup (entityRefCall ref)),
                   result := Some r\<rparr>, None)"
  using lt
proof (induction k arbitrary: s)
  case 0
  then show ?case by (simp add: signInLoop_found)
next
  case (Suc k)
  let ?s1 = "s\<lparr>calls := calls s + 1, events := events s @ [Lookup (entityRefCall ref)]\<rparr>"
  from Suc.prems(1) obtain err where
    e: "ctx (calls s) (entityRefCall ref) = Inl err" "\<not> has_name_and_message err"
    by force
  from Suc.prems(3) e have "signInLoop ctx ref s = signInLoop ctx ref ?s1"
    by (rule signInLoop_unclassified)
  also have "\<dots> =
      Some (?s1\<lparr>calls := calls ?s1 + k + 1,
                events := events ?s1 @ replicate (k + 1) (Lookup (entityRefCall ref)),
                result := Some r\<rparr>, None)"
  proof (rule Suc.IH)
    show "\<forall>n<k. \<exists>err. ctx (calls ?s1 + n) (entityRefCall ref) = Inl err \<and>
                     \<not> has_name_and_message err"
    proof (intro allI impI)
      fix n assume "n < k"
      then have "Suc n < Suc k" by simp
      with Suc.prems(1) have "\<exists>err. ctx (calls s + Suc n) (entityRefCall ref) = Inl err \<and>
                     \<not> has_name_and_message err" by blast
      then show "\<exists>err. ctx (calls ?s1 + n) (entityRefCall ref) = Inl err \<and>
                     \<not> has_name_and_message err" by simp
    qed
    show "ctx (calls ?s1 + k) (entityRefCall ref) = Inr r"
      using Suc.prems(2) by simp
    show "attempt ?s1 < MAX_RETRIES" using Suc.prems(3) by simp
  qed
  finally show ?case by (simp add: replicate_append_same)
qed

text \<open>
  C1. When every lookup fails with an object that has a name and a message and whose name is
  \<^verbatim>\<open>NotFoundError\<close>, the retrier makes ten lookups, each followed by a sleep of 300 ms (the
  last one too), and then fails with the error whose message names the reference and the
  ten attempts.
\<close>

theorem retry_not_found_ten_times:
  assumes "\<forall>n. is_not_found (ctx n (entityRefCall ref))"
  shows "retrySignIn ctx ref =
           Some (concat (replicate 10 [Lookup (entityRefCall ref), Sleep 300]),
                 Inl (Error (''User entity '' @ ref @
                             '' not found in catalog after 10 attempts'')))"
proof -
  let ?s0 = "\<lparr>result = None, attempt = 0, calls = 0, events = []\<rparr>"
  have "attempt ?s0 + 10 = MAX_RETRIES" by (simp add: MAX_RETRIES_def)
  with assms signInLoop_always_not_found [of ctx ref ?s0 10]
  show ?thesis
    by (simp add: retrySignIn_def string_of_MAX_RETRIES RETRY_DELAY_MS_def)
qed

theorem retry_not_found_ten_times_witness:
  "is_not_found (never_found 0 (entityRefCall ''user:default/jdoe'')) \<and>
   retrySignIn never_found ''user:default/jdoe'' =
     Some (concat (replicate 10 [Lookup (entityRefCall ''user:default/jdoe''), Sleep 300]),
           Inl (Error ''User entity user:default/jdoe not found in catalog after 10 attempts''))"
  using retry_not_found_ten_times [of never_found "''user:default/jdoe''"]
  by (simp add: never_found_def is_not_found_def)

text \<open>
  C2, as the code has it. When the first lookup fails with an object that has a name and a
  message and whose name is not \<^verbatim>\<open>NotFoundError\<close>, the retrier makes that one lookup, does
  not sleep, and fails with a new error, whose message is
  \<^verbatim>\<open>Failed to sign in with catalog user: \<close> followed by the message of the failure.
\<close>

theorem retry_other_failure_wrapped:
  assumes "ctx 0 (entityRefCall ref) = Inl (ErrObject (Some n) (Some m))"
    and "n \<noteq> Str ''NotFoundError''"
  shows "retrySignIn ctx ref =
           Some ([Lookup (entityRefCall ref)],
                 Inl (Error (''Failed to sign in with catalog user: '' @ prop_text m)))"
proof -
  let ?s0 = "\<lparr>result = None, attempt = 0, calls = 0, events = []\<rparr>"
  have "attempt ?s0 < MAX_RETRIES" by (simp add: MAX_RETRIES_def)
  from signInLoop_other_failure [of ?s0 ctx ref n m, OF this] assms
  show ?thesis by (simp add: retrySignIn_def)
qed

theorem retry_other_failure_wrapped_witness:
  "always_conflict 0 (entityRefCall ''user:default/jdoe'') = Inl conflict_error \<and>
   retrySignIn always_conflict ''user:default/jdoe'' =
     Some ([Lookup (entityRefCall ''user:default/jdoe'')],
           Inl (Error ''Failed to sign in with catalog user: boom''))"
  using retry_other_failure_wrapped
          [of always_conflict "''user:default/jdoe''" "Str ''ConflictError''" "Str ''boom''"]
  by (simp add: always_conflict_def conflict_error_def)

text \<open>
  The claim C2 as it is written fails: the value the retrier fails with is not the value
  the lookup failed with.
\<close>

theorem retry_other_failure_not_unchanged:
  "always_conflict 0 (entityRefCall ''user:default/jdoe'') = Inl conflict_error \<and>
   retrySignIn always_conflict ''user:default/jdoe'' \<noteq>
     Some ([Lookup (entityRefCall ''user:default/jdoe'')], Inl conflict_error)"
proof -
  let ?s0 = "\<lparr>result = None, attempt = 0, calls = 0, events = []\<rparr>"
  have "attempt ?s0 < MAX_RETRIES" by (simp add: MAX_RETRIES_def)
  from signInLoop_other_failure
         [of ?s0 always_conflict "''user:default/jdoe''" "Str ''ConflictError''" "Str ''boom''",
          OF this]
  show ?thesis
    by (simp add: retrySignIn_def always_conflict_def conflict_error_def Error_def)
qed

text \<open>
  C10. A lookup that fails with a value that is not an object with a name and a message is
  followed at once by the next lookup: nothing is thrown, no sleep is made and the attempt
  counter keeps its value. So when the first \<open>k\<close> lookups fail so and the next one succeeds,
  the retrier has made \<open>k + 1\<close> lookups and nothing else, and signs in, however large \<open>k\<close>
  is. When every lookup fails so, the loop never ends, and the retrier never settles.
\<close>

theorem retry_unclassified_never_settles:
  "(attempt s < MAX_RETRIES \<and> ctx (calls s) (entityRefCall ref) = Inl err \<and>
    \<not> has_name_and_message err \<longrightarrow>
      signInLoop ctx ref s =
        signInLoop ctx ref
          (s\<lparr>calls := calls s + 1, events := events s @ [Lookup (entityRefCall ref)]\<rparr>)) \<and>
   ((\<forall>n<k. \<exists>err. ctx n (entityRefCall ref) = Inl err \<and> \<not> has_name_and_message err) \<and>
    ctx k (entityRefCall ref) = Inr r \<longrightarrow>
      retrySignIn ctx ref = Some (replicate (k + 1) (Lookup (entityRefCall ref)), Inr r)) \<and>
   ((\<forall>n. \<exists>err. ctx n (entityRefCall ref) = Inl err \<and> \<not> has_name_and_message err) \<longrightarrow>
      retrySignIn ctx ref = None)"
proof -
  have run: "retrySignIn ctx ref = Some (replicate (k + 1) (Lookup (entityRefCall ref)), Inr r)"
    if "\<forall>n<k. \<exists>err. ctx n (entityRefCall ref) = Inl err \<and> \<not> has_name_and_message err"
      and "ctx k (entityRefCall ref) = Inr r"
  proof -
    let ?s0 = "\<lparr>result = None, attempt = 0, calls = 0, events = []\<rparr>"
    have "attempt ?s0 < MAX_RETRIES" by (simp add: MAX_RETRIES_def)
    from signInLoop_unclassified_run [OF this, of k ctx ref r] that
    show ?thesis by (simp add: retrySignIn_def)
  qed
  let ?s0 = "\<lparr>result = None, attempt = 0, calls = 0, events = []\<rparr>"
  have "signInLoop ctx ref ?s0 = None"
    if "\<forall>n. \<exists>err. ctx n (entityRefCall ref) = Inl err \<and> \<not> has_name_and_message err"
  proof (cases "signInLoop ctx ref ?s0")
    case None
    then show ?thesis .
  next
    case (Some y)
    from signInLoop_never_settles [OF this] that show ?thesis
      by (simp add: MAX_RETRIES_def)
  qed
  with run show ?thesis
    by (auto simp: retrySignIn_def signInLoop_unclassified)
qed

theorem retry_unclassified_never_settles_witness:
  "always_text 0 (entityRefCall ''user:default/jdoe'') = Inl (Primitive ''timeout'') \<and>
   \<not> has_name_and_message (Primitive ''timeout'') \<and>
   signInLoop always_text ''user:default/jdoe''
     \<lparr>result = None, attempt = 0, calls = 0, events = []\<rparr> =
   signInLoop always_text ''user:default/jdoe''
     \<lparr>result = None, attempt = 0, calls = 1,
      events = [Lookup (entityRefCall ''user:default/jdoe'')]\<rparr> \<and>
   retrySignIn always_text ''user:default/jdoe'' = None \<and>
   text_then_found 11 (entityRefCall ''user:default/jdoe'') = Inl (Primitive ''timeout'') \<and>
   text_then_found 12 (entityRefCall ''user:default/jdoe'') = Inr \<lparr>token = ''t''\<rparr> \<and>
   retrySignIn text_then_found ''user:default/jdoe'' =
     Some (replicate 13 (Lookup (entityRefCall ''user:default/jdoe'')), Inr \<lparr>token = ''t''\<rparr>)"
  using retry_unclassified_never_settles
          [of "\<lparr>result = None, attempt = 0, calls = 0, events = []\<rparr>" always_text
              "''user:default/jdoe''" "Primitive ''timeout''" 0 "\<lparr>token = ''t''\<rparr>"]
        retry_unclassified_never_settles
          [of "\<lparr>result = None, attempt = 0, calls = 0, events = []\<rparr>" text_then_found
              "''user:default/jdoe''" "Primitive ''timeout''" 12 "\<lparr>token = ''t''\<rparr>"]
  by (simp add: always_text_def text_then_found_def has_name_and_message_def MAX_RETRIES_def)

section \<open>Provisioning\<close>

text \<open>
  C6. When \<open>applyMutation\<close> rejects the publish of \<open>addOrUpdateUser\<close>, the call rejects with
  the same value and the cache keeps the upserted entity. In \<open>oauth2TokenClaimResolver\<close>
  that value goes to \<^verbatim>\<open>console.error\<close> and the resolver then settles as the retry loop
  does on the reference of the entity.
\<close>

theorem publish_failure_kept_and_logged:
  assumes conn: "connection p = Some c"
    and fails: "c (applied p) (Full (getAllUsers (fst (addOrUpdateUser p e)))) = Some err"
  shows "snd (addOrUpdateUser p e) = Inl err \<and>
         map_of (userCache (fst (addOrUpdateUser p e))) (entityKey e) = Some (deferred e) \<and>
         (buildUserEntity pf info = Inr e \<and> dynamicUserEntityProvider w = Some p \<longrightarrow>
            oauth2TokenClaimResolver pf info ctx w =
              map_option
                (\<lambda>(evs, res).
                   (w\<lparr>dynamicUserEntityProvider := Some (fst (addOrUpdateUser p e)),
                      console := console w @
                        [(''Failed to add user to catalog via provider:'', err)]\<rparr>,
                    evs, res))
                (retrySignIn ctx (stringifyEntityRef pf e)))"
proof -
  have cache: "userCache (fst (addOrUpdateUser p e)) =
                 map_set (userCache p) (entityKey e) (deferred e)"
    by (rule userCache_addOrUpdateUser)
  from fails have f: "c (applied p)
      (Full (map_values (map_set (userCache p) (entityKey e) (deferred e)))) = Some err"
    by (simp add: getAllUsers_def cache)
  with conn have rej: "snd (addOrUpdateUser p e) = Inl err"
    by (simp add: addOrUpdateUser_def Let_def)
  have kept: "map_of (userCache (fst (addOrUpdateUser p e))) (entityKey e) = Some (deferred e)"
    by (simp add: cache map_of_map_set)
  have "provisionUser w e =
          w\<lparr>dynamicUserEntityProvider := Some (fst (addOrUpdateUser p e)),
            console := console w @ [(''Failed to add user to catalog via provider:'', err)]\<rparr>"
    if "dynamicUserEntityProvider w = Some p"
    using that rej
    by (cases "addOrUpdateUser p e")
       (simp add: provisionUser_def getDynamicUserEntityProvider_def)
  then have "oauth2TokenClaimResolver pf info ctx w =
              map_option
                (\<lambda>(evs, res).
                   (w\<lparr>dynamicUserEntityProvider := Some (fst (addOrUpdateUser p e)),
                      console := console w @
                        [(''Failed to add user to catalog via provider:'', err)]\<rparr>,
                    evs, res))
                (retrySignIn ctx (stringifyEntityRef pf e))"
    if "buildUserEntity pf info = Inr e" "dynamicUserEntityProvider w = Some p"
    using that by (simp add: oauth2TokenClaimResolver_def Let_def)
  with rej kept show ?thesis by blast
qed

lemma retrySignIn_always_signs_in:
  "retrySignIn always_signs_in ref = Some ([Lookup (entityRefCall ref)], Inr \<lparr>token = ''t''\<rparr>)"
proof -
  let ?s0 = "\<lparr>result = None, attempt = 0, calls = 0, events = []\<rparr>"
  have "attempt ?s0 < MAX_RETRIES" by (simp add: MAX_RETRIES_def)
  from signInLoop_found [of ?s0 always_signs_in ref "\<lparr>token = ''t''\<rparr>", OF this]
  show ?thesis by (simp add: retrySignIn_def always_signs_in_def)
qed

theorem publish_failure_kept_and_logged_witness:
  "connection (connect new_provider rejecting) = Some rejecting \<and>
   snd (addOrUpdateUser (connect new_provider rejecting) jdoe) =
     Inl (Error ''catalog unavailable'') \<and>
   map_of (userCache (fst (addOrUpdateUser (connect new_provider rejecting) jdoe)))
     (entityKey jdoe) = Some (deferred jdoe) \<and>
   oauth2TokenClaimResolver example_platform jdoe_info always_signs_in
     \<lparr>dynamicUserEntityProvider = Some (connect new_provider rejecting), console = []\<rparr> =
     Some (\<lparr>dynamicUserEntityProvider =
               Some (fst (addOrUpdateUser (connect new_provider rejecting) jdoe)),
             console = [(''Failed to add user to catalog via provider:'',
                         Error ''catalog unavailable'')]\<rparr>,
           [Lookup (entityRefCall ''user:default/jdoe'')], Inr \<lparr>token = ''t''\<rparr>)"
proof -
  have c: "connection (connect new_provider rejecting) = Some rejecting"
    by (simp add: connect_def)
  have f: "rejecting (applied (connect new_provider rejecting))
             (Full (getAllUsers (fst (addOrUpdateUser (connect new_provider rejecting) jdoe)))) =
           Some (Error ''catalog unavailable'')"
    by (simp add: rejecting_def)
  have r: "stringifyEntityRef example_platform jdoe = ''user:default/jdoe''"
    by (simp add: example_platform_def jdoe_def userEntityOf_def Let_def)
  from publish_failure_kept_and_logged
         [OF c f, of example_platform jdoe_info
            "\<lparr>dynamicUserEntityProvider = Some (connect new_provider rejecting), console = []\<rparr>"
            always_signs_in]
       c buildUserEntity_jdoe
  show ?thesis
    by (simp add: r retrySignIn_always_signs_in)
qed

end
